theory Spec2Isabelle
  imports Main "HOL-Library.Sublist"
begin

section \<open>The document registry of mcp\_server.py\<close>

text \<open>
  The module keeps one global Python dict \<open>docs\<close> from document ids to contents. A Python
  dict iterates in insertion order and holds each key once, so it is modelled as an
  association list; the operations of the dict that the handlers use are written out below.
\<close>

type_synonym pydict = "(string \<times> string) list"

text \<open>A Python dict never holds a key twice.\<close>

definition well_formed :: "pydict \<Rightarrow> bool" where
  "well_formed d = distinct (map fst d)"

text \<open>\<open>k in d\<close>\<close>

definition dict_contains :: "pydict \<Rightarrow> string \<Rightarrow> bool" where
  "dict_contains d k = (k \<in> set (map fst d))"

text \<open>\<open>d.get(k)\<close>: the value stored under \<open>k\<close>, Python's \<open>None\<close> when there is none.\<close>

fun dict_get :: "pydict \<Rightarrow> string \<Rightarrow> string option" where
  "dict_get [] k = None"
| "dict_get ((k', v) # d) k = (if k' = k then Some v else dict_get d k)"

text \<open>
  \<open>d[k] = v\<close>: an existing key keeps its place and gets the new value, a new key is
  appended at the end.
\<close>

fun dict_setitem :: "pydict \<Rightarrow> string \<Rightarrow> string \<Rightarrow> pydict" where
  "dict_setitem [] k v = [(k, v)]"
| "dict_setitem ((k', v') # d) k v =
     (if k' = k then (k, v) # d else (k', v') # dict_setitem d k v)"

text \<open>\<open>list(d.keys())\<close>\<close>

definition dict_keys :: "pydict \<Rightarrow> string list" where
  "dict_keys d = map fst d"

text \<open>The literal table the module starts with (lines 7 to 14).\<close>

definition docs :: pydict where
  "docs =
    [(''deposition.md'', ''This deposition covers the testimony of Angela Smith, P.E.''),
     (''report.pdf'', ''The report details the state of a 20m condenser tower.''),
     (''financials.docx'',
        ''These financials outline the project'' @ [CHR 0x27] @ ''s budget and expenditures.''),
     (''outlook.pdf'',
        ''This document presents the projected future performance of the system.''),
     (''plan.md'',
        ''The plan outlines the steps for the project'' @ [CHR 0x27] @ ''s implementation.''),
     (''spec.txt'',
        ''These specifications define the technical requirements for the equipment.'')]"

subsection \<open>Exceptions and results\<close>

text \<open>
  The only exception the handlers raise is \<open>ValueError\<close>, with a message. A handler
  returns its outcome (\<open>Inl\<close> the exception raised) together with the dict as it is
  afterwards, since \<open>docs\<close> is global mutable state.
\<close>

datatype error = ValueError string

type_synonym 'a outcome = "(error + 'a) \<times> pydict"

text \<open>\<open>f"Document with ID '{doc_id}' not found."\<close>\<close>

definition not_found_message :: "string \<Rightarrow> string" where
  "not_found_message doc_id =
     ''Document with ID '' @ [CHR 0x27] @ doc_id @ [CHR 0x27] @ '' not found.''"

subsection \<open>The handlers\<close>

text \<open>
  \<open>read_document\<close> (tool \<open>read_doc\<close>): raises when the id is not a key, otherwise
  returns \<open>docs.get(doc_id)\<close>, whose Python type admits \<open>None\<close>.
\<close>

definition read_document :: "pydict \<Rightarrow> string \<Rightarrow> string option outcome" where
  "read_document d doc_id =
     (if \<not> dict_contains d doc_id then (Inl (ValueError (not_found_message doc_id)), d)
      else (Inr (dict_get d doc_id), d))"

text \<open>
  \<open>edit_document\<close> (tool \<open>edit_doc\<close>): raises when the id is not a key, otherwise
  assigns \<open>docs[doc_id] = new_content\<close> and falls off the end, returning \<open>None\<close>.
\<close>

definition edit_document :: "pydict \<Rightarrow> string \<Rightarrow> string \<Rightarrow> unit outcome" where
  "edit_document d doc_id new_content =
     (if \<not> dict_contains d doc_id then (Inl (ValueError (not_found_message doc_id)), d)
      else (Inr (), dict_setitem d doc_id new_content))"

text \<open>\<open>list_docs\<close> (resource \<open>docs://documents\<close>)\<close>

definition list_docs :: "pydict \<Rightarrow> string list outcome" where
  "list_docs d = (Inr (dict_keys d), d)"

text \<open>\<open>get_doc_content\<close> (resource \<open>docs://documents/{doc_id}\<close>)\<close>

definition get_doc_content :: "pydict \<Rightarrow> string \<Rightarrow> string option outcome" where
  "get_doc_content d doc_id =
     (if \<not> dict_contains d doc_id then (Inl (ValueError (not_found_message doc_id)), d)
      else (Inr (dict_get d doc_id), d))"

text \<open>
  The messages of the prompt library: \<open>base.UserMessage(content=prompt)\<close> wraps the text
  with the role of the user.
\<close>

datatype Message = UserMessage (content: string) | AssistantMessage (content: string)

definition newline :: char where
  "newline = CHR 0x0A"

text \<open>
  \<open>format_document\<close> (prompt \<open>format\<close>): the f-string of lines 106 to 116, line by line,
  with \<open>doc_id\<close> interpolated; the dict is not consulted. The string literal that follows
  the \<open>return\<close> in the body (lines 134 to 140) is never reached.
\<close>

definition prompt_head :: string where
  "prompt_head =
     [newline]
     @ ''    Your goal is to reformat a document to be written with markdown syntax.''
     @ [newline]
     @ [newline]
     @ ''    The id of the document you need to reformat is:'' @ [newline]
     @ ''    <document_id>'' @ [newline]
     @ ''    ''"

definition prompt_tail :: string where
  "prompt_tail =
     [newline]
     @ ''    </document_id>'' @ [newline]
     @ [newline]
     @ ''    Add in headers, bullet points, tables, etc as necessary. Feel free to add in structure.''
     @ [newline]
     @ ''    Use the '' @ [CHR 0x27] @ ''edit_document'' @ [CHR 0x27]
     @ '' tool to edit the document. After the document has been reformatted...''
     @ [newline]
     @ ''    ''"

definition format_document :: "pydict \<Rightarrow> string \<Rightarrow> Message list outcome" where
  "format_document d doc_id = (Inr [UserMessage (prompt_head @ doc_id @ prompt_tail)], d)"

subsection \<open>The server as a state machine\<close>

text \<open>
  A request names one of the five registered handlers with its arguments; the server
  handles requests one after the other on the global dict, starting from \<open>docs\<close>.
\<close>

datatype request =
    ReadDoc string
  | EditDoc string string
  | ListDocs
  | DocContent string
  | Format string

fun handle :: "pydict \<Rightarrow> request \<Rightarrow> pydict" where
  "handle d (ReadDoc doc_id) = snd (read_document d doc_id)"
| "handle d (EditDoc doc_id new_content) = snd (edit_document d doc_id new_content)"
| "handle d ListDocs = snd (list_docs d)"
| "handle d (DocContent doc_id) = snd (get_doc_content d doc_id)"
| "handle d (Format doc_id) = snd (format_document d doc_id)"

definition serve :: "request list \<Rightarrow> pydict" where
  "serve rs = foldl handle docs rs"

section \<open>Properties of the dict operations\<close>

lemma dict_get_setitem_same: "dict_get (dict_setitem d k v) k = Some v"
  by (induction d k v rule: dict_setitem.induct) simp_all

lemma dict_get_setitem_other: "k' \<noteq> k \<Longrightarrow> dict_get (dict_setitem d k v) k' = dict_get d k'"
  by (induction d k v rule: dict_setitem.induct) simp_all

lemma dict_keys_setitem:
  "dict_contains d k \<Longrightarrow> dict_keys (dict_setitem d k v) = dict_keys d"
  by (induction d k v rule: dict_setitem.induct) (auto simp: dict_contains_def dict_keys_def)

lemma dict_get_stored:
  "well_formed d \<Longrightarrow> (k, c) \<in> set d \<Longrightarrow> dict_get d k = Some c"
  by (induction d k rule: dict_get.induct) (force simp: well_formed_def)+

lemma dict_get_present:
  "dict_contains d k \<Longrightarrow> \<exists>c. dict_get d k = Some c \<and> (k, c) \<in> set d"
  by (induction d k rule: dict_get.induct) (auto simp: dict_contains_def)

lemma dict_setitem_well_formed:
  "well_formed d \<Longrightarrow> dict_contains d k \<Longrightarrow>
     dict_setitem d k v = map (\<lambda>(k', c). if k' = k then (k', v) else (k', c)) d"
proof (induction d k v rule: dict_setitem.induct)
  case (1 k v)
  then show ?case
    by (simp add: dict_contains_def)
next
  case (2 k' v' d k v)
  show ?case
  proof (cases "k' = k")
    case True
    with "2.prems" have "k \<notin> fst ` set d"
      by (simp add: well_formed_def)
    then have "map (\<lambda>(k', c). if k' = k then (k', v) else (k', c)) d = d"
      by (induction d) auto
    with True show ?thesis
      by simp
  next
    case False
    with 2 show ?thesis
      by (simp add: well_formed_def dict_contains_def)
  qed
qed

lemma well_formed_docs: "well_formed docs"
  by (simp add: well_formed_def docs_def)


lemma dict_contains_docs_plan: "dict_contains docs ''plan.md''"
  by (simp add: dict_contains_def docs_def)

lemma not_dict_contains_docs_nope: "\<not> dict_contains docs ''nope''"
  by (simp add: dict_contains_def docs_def)

lemma sublist_inside: "sublist xs ys \<Longrightarrow> sublist xs (ps @ ys @ ss)"
proof -
  assume "sublist xs ys"
  then obtain p s where "ys = p @ xs @ s"
    by (auto simp: sublist_def)
  then have "ps @ ys @ ss = (ps @ p) @ xs @ (s @ ss)"
    by simp
  then show ?thesis
    unfolding sublist_def by blast
qed

lemma prompt_tail_names_tool: "sublist ''edit_document'' prompt_tail"
proof -
  have "prompt_tail =
     ([newline] @ ''    </document_id>'' @ [newline] @ [newline]
      @ ''    Add in headers, bullet points, tables, etc as necessary. Feel free to add in structure.''
      @ [newline] @ ''    Use the '' @ [CHR 0x27])
     @ ''edit_document''
     @ ([CHR 0x27] @ '' tool to edit the document. After the document has been reformatted...''
        @ [newline] @ ''    '')"
    by (simp add: prompt_tail_def)
  then show ?thesis
    by (elim ssubst) (rule sublist_appendI)
qed

lemma handle_keys: "dict_keys (handle d r) = dict_keys d"
  by (cases r)
     (simp_all add: read_document_def edit_document_def list_docs_def get_doc_content_def
        format_document_def dict_keys_setitem)

lemma foldl_handle_keys: "dict_keys (foldl handle d rs) = dict_keys d"
  by (induction rs arbitrary: d) (simp_all add: handle_keys)

section \<open>Properties of the handlers\<close>

text \<open>
  C1. For every id that is a key of the dict and every string \<open>X\<close>, \<open>edit_doc\<close> with that
  id and \<open>X\<close> returns without raising, and \<open>read_doc\<close> of the same id on the dict it leaves
  behind returns exactly \<open>X\<close>.
\<close>

theorem edit_document_then_read_document:
  "dict_contains d doc_id \<Longrightarrow>
     fst (edit_document d doc_id X) = Inr ()
     \<and> fst (read_document (snd (edit_document d doc_id X)) doc_id) = Inr (Some X)"
proof -
  assume present: "dict_contains d doc_id"
  let ?d' = "dict_setitem d doc_id X"
  from present have edited: "edit_document d doc_id X = (Inr (), ?d')"
    by (simp add: edit_document_def)
  from present have "dict_keys ?d' = dict_keys d"
    by (rule dict_keys_setitem)
  with present have "dict_contains ?d' doc_id"
    by (simp add: dict_contains_def dict_keys_def)
  then have "fst (read_document ?d' doc_id) = Inr (Some X)"
    by (simp add: read_document_def dict_get_setitem_same)
  with edited show ?thesis
    by simp
qed

theorem edit_document_then_read_document_witness:
  "dict_contains docs ''plan.md''
   \<and> fst (edit_document docs ''plan.md'' ''# Plan'') = Inr ()
   \<and> fst (read_document (snd (edit_document docs ''plan.md'' ''# Plan'')) ''plan.md'')
       = Inr (Some ''# Plan'')"
proof -
  have present: "dict_contains docs ''plan.md''"
    by (rule dict_contains_docs_plan)
  show ?thesis
    using present edit_document_then_read_document [OF present, of "''# Plan''"]
    by simp
qed

text \<open>
  C2. \<open>read_doc\<close> raises exactly when the id is not a key of the dict, and what it raises
  then is the not-found \<open>ValueError\<close> for that id. When the id is a key it returns the
  content of an entry of the dict under that id, and in a dict (no key twice) that is the
  content of the one entry the id has. The dict is left as it was.
\<close>

theorem read_document_not_found_iff_absent:
  "((\<exists>e. fst (read_document d doc_id) = Inl e) \<longleftrightarrow> \<not> dict_contains d doc_id)
   \<and> (\<not> dict_contains d doc_id \<longrightarrow>
        read_document d doc_id = (Inl (ValueError (not_found_message doc_id)), d))
   \<and> (dict_contains d doc_id \<longrightarrow>
        (\<exists>c. (doc_id, c) \<in> set d \<and> read_document d doc_id = (Inr (Some c), d)))
   \<and> (well_formed d \<and> (doc_id, c) \<in> set d \<longrightarrow>
        read_document d doc_id = (Inr (Some c), d))"
proof (intro conjI impI)
  show "(\<exists>e. fst (read_document d doc_id) = Inl e) \<longleftrightarrow> \<not> dict_contains d doc_id"
    by (simp add: read_document_def)
next
  assume "\<not> dict_contains d doc_id"
  then show "read_document d doc_id = (Inl (ValueError (not_found_message doc_id)), d)"
    by (simp add: read_document_def)
next
  assume present: "dict_contains d doc_id"
  then obtain c where "dict_get d doc_id = Some c" and "(doc_id, c) \<in> set d"
    using dict_get_present by blast
  with present show "\<exists>c. (doc_id, c) \<in> set d \<and> read_document d doc_id = (Inr (Some c), d)"
    by (simp add: read_document_def)
next
  assume stored: "well_formed d \<and> (doc_id, c) \<in> set d"
  then have "dict_get d doc_id = Some c"
    by (simp add: dict_get_stored)
  moreover from stored have "dict_contains d doc_id"
    by (force simp: dict_contains_def)
  ultimately show "read_document d doc_id = (Inr (Some c), d)"
    by (simp add: read_document_def)
qed

theorem read_document_not_found_iff_absent_witness:
  "\<not> dict_contains docs ''nope''
   \<and> read_document docs ''nope''
       = (Inl (ValueError (''Document with ID '' @ [CHR 0x27] @ ''nope'' @ [CHR 0x27]
                            @ '' not found.'')), docs)
   \<and> dict_contains docs ''plan.md''
   \<and> well_formed docs
   \<and> (''plan.md'', ''The plan outlines the steps for the project'' @ [CHR 0x27]
                      @ ''s implementation.'') \<in> set docs
   \<and> read_document docs ''plan.md''
       = (Inr (Some (''The plan outlines the steps for the project'' @ [CHR 0x27]
                      @ ''s implementation.'')), docs)"
proof -
  let ?c = "''The plan outlines the steps for the project'' @ [CHR 0x27] @ ''s implementation.''"
  have absent: "\<not> dict_contains docs ''nope''"
    by (rule not_dict_contains_docs_nope)
  have present: "dict_contains docs ''plan.md''"
    by (rule dict_contains_docs_plan)
  have stored: "(''plan.md'', ?c) \<in> set docs"
    by (simp add: docs_def)
  from absent read_document_not_found_iff_absent [of docs "''nope''"]
  have "read_document docs ''nope'' = (Inl (ValueError (not_found_message ''nope'')), docs)"
    by blast
  moreover from stored well_formed_docs read_document_not_found_iff_absent [of docs "''plan.md''" ?c]
  have "read_document docs ''plan.md'' = (Inr (Some ?c), docs)"
    by blast
  ultimately show ?thesis
    using absent present stored well_formed_docs
    by (simp add: not_found_message_def)
qed

text \<open>
  C3. For every id that is not a key of the dict and every string \<open>X\<close>, \<open>edit_doc\<close> raises
  the not-found \<open>ValueError\<close> for that id and leaves the dict, keys and contents, exactly
  as it was.
\<close>

theorem edit_document_absent:
  "\<not> dict_contains d doc_id \<Longrightarrow>
     edit_document d doc_id X = (Inl (ValueError (not_found_message doc_id)), d)"
  by (simp add: edit_document_def)

theorem edit_document_absent_witness:
  "\<not> dict_contains docs ''nope''
   \<and> edit_document docs ''nope'' ''text''
       = (Inl (ValueError (''Document with ID '' @ [CHR 0x27] @ ''nope'' @ [CHR 0x27]
                            @ '' not found.'')), docs)"
proof -
  have absent: "\<not> dict_contains docs ''nope''"
    by (rule not_dict_contains_docs_nope)
  show ?thesis
    using absent edit_document_absent [OF absent, of "''text''"]
    by (simp add: not_found_message_def)
qed

text \<open>
  C4. On the dict the module starts with, \<open>list_docs\<close> returns the six seeded ids in the
  order of the literal table; and on every dict it returns, without raising, the keys in
  their order and leaves the dict as it was.
\<close>

theorem list_docs_initial:
  "fst (list_docs docs)
     = Inr [''deposition.md'', ''report.pdf'', ''financials.docx'', ''outlook.pdf'',
            ''plan.md'', ''spec.txt'']
   \<and> list_docs d = (Inr (map fst d), d)"
  by (simp add: list_docs_def dict_keys_def docs_def)

text \<open>
  C5. On the dict the module starts with, \<open>read_doc\<close> of each of the six seeded ids
  returns the content written beside that id in the literal table.
\<close>

theorem read_document_seeded:
  "fst (read_document docs ''deposition.md'')
     = Inr (Some ''This deposition covers the testimony of Angela Smith, P.E.'')
   \<and> fst (read_document docs ''report.pdf'')
     = Inr (Some ''The report details the state of a 20m condenser tower.'')
   \<and> fst (read_document docs ''financials.docx'')
     = Inr (Some (''These financials outline the project'' @ [CHR 0x27]
                  @ ''s budget and expenditures.''))
   \<and> fst (read_document docs ''outlook.pdf'')
     = Inr (Some ''This document presents the projected future performance of the system.'')
   \<and> fst (read_document docs ''plan.md'')
     = Inr (Some (''The plan outlines the steps for the project'' @ [CHR 0x27]
                  @ ''s implementation.''))
   \<and> fst (read_document docs ''spec.txt'')
     = Inr (Some ''These specifications define the technical requirements for the equipment.'')"
  by (simp add: read_document_def dict_contains_def docs_def)

text \<open>
  C6. The prompt \<open>format\<close> for \<open>plan.md\<close> returns a list of exactly one message, whose text
  contains \<open>plan.md\<close> and \<open>edit_document\<close> as substrings; and for every id the one message
  returned contains the id as a substring.
\<close>

theorem format_document_plan:
  "(\<exists>m. fst (format_document d ''plan.md'') = Inr [m]
        \<and> sublist ''plan.md'' (content m) \<and> sublist ''edit_document'' (content m))
   \<and> (\<exists>m. fst (format_document d doc_id) = Inr [m] \<and> sublist doc_id (content m))"
proof (intro conjI)
  let ?text = "\<lambda>x. prompt_head @ x @ prompt_tail"
  have returned: "fst (format_document d x) = Inr [UserMessage (?text x)]" for x
    by (simp add: format_document_def)
  have interpolated: "sublist x (content (UserMessage (?text x)))" for x
    unfolding Message.sel by (rule sublist_appendI)
  have tool: "sublist ''edit_document'' (content (UserMessage (?text ''plan.md'')))"
    unfolding Message.sel
    using sublist_inside [OF prompt_tail_names_tool, of "prompt_head @ ''plan.md''" "[]"]
    by (simp only: append_Nil2 append_assoc)
  from returned interpolated tool
  show "\<exists>m. fst (format_document d ''plan.md'') = Inr [m]
          \<and> sublist ''plan.md'' (content m) \<and> sublist ''edit_document'' (content m)"
    by blast
  from returned interpolated
  show "\<exists>m. fst (format_document d doc_id) = Inr [m] \<and> sublist doc_id (content m)"
    by blast
qed

text \<open>
  C7. For every id, whether or not it is a key of the dict, the prompt \<open>format\<close> returns
  without raising exactly one user message, and its text is the template of lines 106 to
  116 with the id in its place: the fixed opening, then the id, then the fixed closing that
  names the \<open>edit_document\<close> tool. The dict is not consulted: the result is the same on
  every dict, the empty one (where no id is a key) included, and the dict is left as it
  was. On the dict the module starts with, the id \<open>nope\<close> is not a key and the message for
  it is the template written out around \<open>nope\<close>.
\<close>

theorem format_document_no_existence_check:
  "(\<exists>m. format_document d doc_id = (Inr [m], d) \<and> sublist doc_id (content m))
   \<and> fst (format_document d doc_id) = fst (format_document d' doc_id)
   \<and> fst (format_document d doc_id) = fst (format_document [] doc_id)
   \<and> format_document d doc_id = (Inr [UserMessage (prompt_head @ doc_id @ prompt_tail)], d)
   \<and> (\<exists>m. fst (format_document d doc_id) = Inr [m]
          \<and> prefix prompt_head (content m) \<and> suffix prompt_tail (content m)
          \<and> sublist doc_id (content m) \<and> sublist ''edit_document'' (content m))
   \<and> \<not> dict_contains docs ''nope''
   \<and> format_document docs ''nope''
       = (Inr [UserMessage
           ([CHR 0x0A]
            @ ''    Your goal is to reformat a document to be written with markdown syntax.''
            @ [CHR 0x0A]
            @ [CHR 0x0A]
            @ ''    The id of the document you need to reformat is:'' @ [CHR 0x0A]
            @ ''    <document_id>'' @ [CHR 0x0A]
            @ ''    nope'' @ [CHR 0x0A]
            @ ''    </document_id>'' @ [CHR 0x0A]
            @ [CHR 0x0A]
            @ ''    Add in headers, bullet points, tables, etc as necessary. Feel free to add in structure.''
            @ [CHR 0x0A]
            @ ''    Use the '' @ [CHR 0x27] @ ''edit_document'' @ [CHR 0x27]
            @ '' tool to edit the document. After the document has been reformatted...''
            @ [CHR 0x0A]
            @ ''    '')], docs)"
proof (intro conjI)
  let ?text = "prompt_head @ doc_id @ prompt_tail"
  have returned: "format_document d doc_id = (Inr [UserMessage ?text], d)" for d
    by (simp add: format_document_def)
  have interpolated: "sublist doc_id (content (UserMessage ?text))"
    unfolding Message.sel by (rule sublist_appendI)
  have starts: "prefix prompt_head (content (UserMessage ?text))"
    unfolding Message.sel by (rule prefixI) (rule refl)
  have ends: "suffix prompt_tail (content (UserMessage ?text))"
    unfolding Message.sel by (rule suffixI [where zs = "prompt_head @ doc_id"]) (simp only: append_assoc)
  have tool: "sublist ''edit_document'' (content (UserMessage ?text))"
    unfolding Message.sel
    using sublist_inside [OF prompt_tail_names_tool, of "prompt_head @ doc_id" "[]"]
    by (simp only: append_Nil2 append_assoc)
  from returned interpolated
  show "\<exists>m. format_document d doc_id = (Inr [m], d) \<and> sublist doc_id (content m)"
    by blast
  show "fst (format_document d doc_id) = fst (format_document d' doc_id)"
    by (simp only: returned fst_conv)
  show "fst (format_document d doc_id) = fst (format_document [] doc_id)"
    by (simp only: returned fst_conv)
  show "format_document d doc_id = (Inr [UserMessage ?text], d)"
    by (rule returned)
  have "fst (format_document d doc_id) = Inr [UserMessage ?text]"
    by (simp only: returned fst_conv)
  with starts ends interpolated tool
  show "\<exists>m. fst (format_document d doc_id) = Inr [m]
          \<and> prefix prompt_head (content m) \<and> suffix prompt_tail (content m)
          \<and> sublist doc_id (content m) \<and> sublist ''edit_document'' (content m)"
    by blast
  show "\<not> dict_contains docs ''nope''"
    by (rule not_dict_contains_docs_nope)
  show "format_document docs ''nope''
       = (Inr [UserMessage
           ([CHR 0x0A]
            @ ''    Your goal is to reformat a document to be written with markdown syntax.''
            @ [CHR 0x0A]
            @ [CHR 0x0A]
            @ ''    The id of the document you need to reformat is:'' @ [CHR 0x0A]
            @ ''    <document_id>'' @ [CHR 0x0A]
            @ ''    nope'' @ [CHR 0x0A]
            @ ''    </document_id>'' @ [CHR 0x0A]
            @ [CHR 0x0A]
            @ ''    Add in headers, bullet points, tables, etc as necessary. Feel free to add in structure.''
            @ [CHR 0x0A]
            @ ''    Use the '' @ [CHR 0x27] @ ''edit_document'' @ [CHR 0x27]
            @ '' tool to edit the document. After the document has been reformatted...''
            @ [CHR 0x0A]
            @ ''    '')], docs)"
    by (simp add: format_document_def prompt_head_def prompt_tail_def newline_def)
qed

text \<open>
  C8. No handler inserts or deletes a key: whatever the request and the dict, the keys
  after the request are the keys before it, in the same order. So after any sequence of
  requests served from the dict the module starts with, the keys are exactly the six
  seeded ids.
\<close>

theorem keys_invariant:
  "dict_keys (handle d r) = dict_keys d
   \<and> dict_keys (serve rs)
       = [''deposition.md'', ''report.pdf'', ''financials.docx'', ''outlook.pdf'',
          ''plan.md'', ''spec.txt'']
   \<and> set (dict_keys (serve rs))
       = {''deposition.md'', ''report.pdf'', ''financials.docx'', ''outlook.pdf'',
          ''plan.md'', ''spec.txt''}"
proof -
  have "dict_keys (serve rs) = dict_keys docs"
    unfolding serve_def by (rule foldl_handle_keys)
  also have "\<dots> = [''deposition.md'', ''report.pdf'', ''financials.docx'', ''outlook.pdf'',
                   ''plan.md'', ''spec.txt'']"
    by (simp add: dict_keys_def docs_def)
  finally show ?thesis
    by (simp add: handle_keys)
qed

text \<open>
  C9. The tool \<open>read_doc\<close> and the resource \<open>documents/{doc_id}\<close> are the same function:
  on every dict and every id they raise the same error or return the same content, and
  leave the same dict.
\<close>

theorem get_doc_content_eq_read_document:
  "get_doc_content d doc_id = read_document d doc_id"
  by (simp add: get_doc_content_def read_document_def)

text \<open>
  C10. For an id that is a key of the dict, \<open>edit_doc\<close> changes the entry of that id only:
  every other key reads as before, and the keys and their order stay; in a dict (no key
  twice) the entries are those of before, each in its place, with the new content beside
  the edited id. \<open>read_doc\<close> leaves the dict as it was, whether it raises or returns.
\<close>

theorem edit_document_frame:
  "dict_contains d doc_id \<Longrightarrow>
     (\<forall>k. k \<noteq> doc_id \<longrightarrow> dict_get (snd (edit_document d doc_id X)) k = dict_get d k)
     \<and> dict_keys (snd (edit_document d doc_id X)) = dict_keys d
     \<and> (well_formed d \<longrightarrow>
          snd (edit_document d doc_id X)
            = map (\<lambda>(k, c). if k = doc_id then (k, X) else (k, c)) d)
     \<and> snd (read_document d k') = d"
proof (intro conjI allI impI)
  assume present: "dict_contains d doc_id"
  then have edited: "snd (edit_document d doc_id X) = dict_setitem d doc_id X"
    by (simp add: edit_document_def)
  show "dict_keys (snd (edit_document d doc_id X)) = dict_keys d"
    using present edited by (simp add: dict_keys_setitem)
  show "snd (read_document d k') = d"
    by (simp add: read_document_def)
  show "dict_get (snd (edit_document d doc_id X)) k = dict_get d k" if "k \<noteq> doc_id" for k
    using that edited by (simp add: dict_get_setitem_other)
  show "snd (edit_document d doc_id X)
          = map (\<lambda>(k, c). if k = doc_id then (k, X) else (k, c)) d" if "well_formed d"
    using that present edited by (simp add: dict_setitem_well_formed)
qed

theorem edit_document_frame_witness:
  "dict_contains docs ''plan.md''
   \<and> ''spec.txt'' \<noteq> ''plan.md''
   \<and> dict_get (snd (edit_document docs ''plan.md'' ''# Plan'')) ''spec.txt''
       = dict_get docs ''spec.txt''
   \<and> well_formed docs
   \<and> snd (edit_document docs ''plan.md'' ''# Plan'')
       = map (\<lambda>(k, c). if k = ''plan.md'' then (k, ''# Plan'') else (k, c)) docs
   \<and> snd (read_document docs ''plan.md'') = docs"
proof -
  have present: "dict_contains docs ''plan.md''"
    by (rule dict_contains_docs_plan)
  have other: "''spec.txt'' \<noteq> ''plan.md''"
    by simp
  note frame = edit_document_frame [OF present, of "''# Plan''" "''plan.md''"]
  have unchanged: "dict_get (snd (edit_document docs ''plan.md'' ''# Plan'')) ''spec.txt''
                     = dict_get docs ''spec.txt''"
    by (rule frame [THEN conjunct1, THEN spec, THEN mp, OF other])
  have in_place: "snd (edit_document docs ''plan.md'' ''# Plan'')
                    = map (\<lambda>(k, c). if k = ''plan.md'' then (k, ''# Plan'') else (k, c)) docs"
    by (rule frame [THEN conjunct2, THEN conjunct2, THEN conjunct1, THEN mp,
          OF well_formed_docs])
  have read: "snd (read_document docs ''plan.md'') = docs"
    by (rule frame [THEN conjunct2, THEN conjunct2, THEN conjunct2])
  show ?thesis
    by (intro conjI) (rule present other unchanged well_formed_docs in_place read)+
qed

end
